theory Spec2Isabelle
  imports Complex_Main "HOL-Library.Stream"
begin

section \<open>Numbers and the random source\<close>

text \<open>
  The program computes with JavaScript numbers. They are read here as real numbers, so
  \<open>Math.sqrt\<close>, \<open>Math.exp\<close>, \<open>Math.log\<close>, \<open>Math.sin\<close>, \<open>Math.cos\<close> and \<open>Math.abs\<close> are
  the real functions \<^term>\<open>sqrt\<close>, \<^term>\<open>exp\<close>, \<^term>\<open>ln\<close>, \<^term>\<open>sin\<close>, \<^term>\<open>cos\<close> and
  \<^term>\<open>abs\<close>; rounding, overflow and the values \<open>NaN\<close> and \<open>Infinity\<close> are outside the model.
  The program returns \<open>NaN\<close> for the square root of a negative number and \<open>-Infinity\<close>
  for the logarithm of \<open>0\<close>, where \<^term>\<open>sqrt\<close> and \<^term>\<open>ln\<close> return a real number: the
  model is the program for time steps \<open>dt \<ge> 0\<close> and draws in \<open>(0, 1)\<close>.

  \<open>Math.random()\<close> reads a global source of uniform draws. The source is an explicit
  stream here: a call returns the head and leaves the tail.
\<close>

type_synonym rng = "real stream"

definition Math_random :: "rng \<Rightarrow> real \<times> rng" where
  "Math_random r = (shd r, stl r)"

text \<open>\<open>Math.sign\<close>: \<open>-1\<close> for a negative number, \<open>1\<close> for a positive one, \<open>0\<close> for zero.\<close>

definition Math_sign :: "real \<Rightarrow> real" where
  "Math_sign v = (if 0 < v then 1 else if v < 0 then - 1 else 0)"

section \<open>diffusion.js: the class DiffusionModel\<close>

record diffusion_model =
  noiseMean :: real
  noiseStd :: real
  cleanMode1 :: real
  cleanMode2 :: real
  cleanStd :: real
  modeWeight :: real
  tMin :: real
  tMax :: real

text \<open>The constructor takes no argument and fixes every parameter.\<close>

definition DiffusionModel :: diffusion_model where
  "DiffusionModel =
     \<lparr> noiseMean = 0, noiseStd = 0.7,
       cleanMode1 = - 1, cleanMode2 = 1, cleanStd = 0.3, modeWeight = 0.5,
       tMin = 0, tMax = 1 \<rparr>"

definition gaussian :: "real \<Rightarrow> real \<Rightarrow> real \<Rightarrow> real" where
  "gaussian x mean std =
     (let variance = std * std;
          coefficient = 1 / sqrt (2 * pi * variance);
          exponent = - 0.5 * ((x - mean) / std) ^ 2
      in coefficient * exp exponent)"

definition getCleanDistribution :: "diffusion_model \<Rightarrow> real \<Rightarrow> real" where
  "getCleanDistribution m x =
     (let g1 = gaussian x (cleanMode1 m) (cleanStd m);
          g2 = gaussian x (cleanMode2 m) (cleanStd m)
      in modeWeight m * g1 + (1 - modeWeight m) * g2)"

definition getNoisyDistribution :: "diffusion_model \<Rightarrow> real \<Rightarrow> real \<Rightarrow> real" where
  "getNoisyDistribution m x t =
     (let noiseDist = gaussian x (noiseMean m) (noiseStd m);
          cleanDist = getCleanDistribution m x
      in (1 - t) * noiseDist + t * cleanDist)"

definition computeVectorField :: "diffusion_model \<Rightarrow> real \<Rightarrow> real \<Rightarrow> real" where
  "computeVectorField m x t =
     (let distToMode1 = \<bar>x - cleanMode1 m\<bar>;
          distToMode2 = \<bar>x - cleanMode2 m\<bar>;
          weight1 = exp (- distToMode1 * 2) * (1 + 0.3 * sin (t * pi));
          weight2 = exp (- distToMode2 * 2) * (1 + 0.3 * cos (t * pi));
          totalWeight = weight1 + weight2;
          targetX = (weight1 * cleanMode1 m + weight2 * cleanMode2 m) / totalWeight;
          direction = targetX - x;
          timeScale = 1.0 - t * 0.2;
          curvature = sin (t * pi * 2) * 0.3 * (1 - t);
          centerComponent = - x * 0.4 * exp (- t * 1.5) * (1 - t);
          velocity = direction * timeScale * 1.0
                     + curvature * Math_sign x * (1 - t)
                     + centerComponent
      in velocity)"

definition flowMatchingStep :: "diffusion_model \<Rightarrow> real \<Rightarrow> real \<Rightarrow> real \<Rightarrow> real" where
  "flowMatchingStep m x t dt =
     (let velocity = computeVectorField m x t in x + velocity * dt)"

text \<open>
  \<open>sampleGaussian\<close> draws twice from the random source (Box-Muller) and returns one
  sample together with the source that is left. \<open>Math.random()\<close> returns a number in
  \<open>[0, 1)\<close>. At a first draw of \<open>0\<close> the program computes \<open>Math.log(0) = -Infinity\<close> and
  returns an infinite value or \<open>NaN\<close>, which the reals do not have: the definition is the
  program for a first draw in \<open>(0, 1)\<close>, and the statement about the sampled value assumes
  such a draw.
\<close>

definition sampleGaussian :: "real \<Rightarrow> real \<Rightarrow> rng \<Rightarrow> real \<times> rng" where
  "sampleGaussian mean std r =
     (let (u1, r1) = Math_random r;
          (u2, r2) = Math_random r1;
          z0 = sqrt (- 2 * ln u1) * cos (2 * pi * u2)
      in (mean + std * z0, r2))"

definition ddpmStep ::
  "diffusion_model \<Rightarrow> real \<Rightarrow> real \<Rightarrow> real \<Rightarrow> real \<Rightarrow> rng \<Rightarrow> real \<times> rng" where
  "ddpmStep m x t dt stochasticity r =
     (let deterministic = flowMatchingStep m x t dt;
          noiseScale = sqrt dt * (1 - t) * stochasticity;
          (noise, r') = sampleGaussian 0 noiseScale r
      in (deterministic + noise, r'))"

definition sampleNoisy :: "diffusion_model \<Rightarrow> rng \<Rightarrow> real \<times> rng" where
  "sampleNoisy m r = sampleGaussian (noiseMean m) (noiseStd m) r"

definition evolveParticle ::
  "diffusion_model \<Rightarrow> real \<Rightarrow> real \<Rightarrow> real \<Rightarrow> real \<Rightarrow> rng \<Rightarrow> real \<times> rng" where
  "evolveParticle m x t dt stochasticity r =
     (if stochasticity = 0 then (flowMatchingStep m x t dt, r)
      else ddpmStep m x t dt stochasticity r)"

section \<open>particle.js: the class Particle\<close>

text \<open>
  The fields \<open>x\<close> and \<open>t\<close> of a particle are \<open>p_x\<close> and \<open>p_t\<close> here. The colour is the
  string \<open>hsl(hue, saturation%, lightness%)\<close> in the program; the model keeps the three
  numbers the string is printed from.
\<close>

record particle =
  p_x :: real
  p_t :: real
  trajectory :: "(real \<times> real) list"
  active :: bool
  color :: "real \<times> real \<times> real"

definition generateColor :: "rng \<Rightarrow> (real \<times> real \<times> real) \<times> rng" where
  "generateColor r =
     (let (h, r1) = Math_random r;
          hue = h * 360;
          (s, r2) = Math_random r1;
          saturation = 60 + s * 40;
          (l, r3) = Math_random r2;
          lightness = 50 + l * 30
      in ((hue, saturation, lightness), r3))"

definition Particle :: "real \<Rightarrow> real \<Rightarrow> rng \<Rightarrow> particle \<times> rng" where
  "Particle x t r =
     (let (c, r') = generateColor r
      in (\<lparr> p_x = x, p_t = t, trajectory = [(x, t)], active = True, color = c \<rparr>, r'))"

text \<open>
  \<open>Particle.update\<close>. The guard marks the particle inactive and returns; otherwise the
  position and time move on, the new point is pushed on the trajectory, and the first
  point is shifted out when the trajectory has grown past 100 points.
\<close>

definition Particle_update ::
  "diffusion_model \<Rightarrow> real \<Rightarrow> real \<Rightarrow> particle \<Rightarrow> rng \<Rightarrow> particle \<times> rng" where
  "Particle_update m dt stochasticity p r =
     (if \<not> active p \<or> 1 \<le> p_t p then (p\<lparr>active := False\<rparr>, r)
      else
        (let (newX, r') = evolveParticle m (p_x p) (p_t p) dt stochasticity r;
             newT = min (p_t p + dt) 1;
             pushed = trajectory p @ [(newX, newT)]
         in (p\<lparr> p_x := newX, p_t := newT,
                trajectory := (if 100 < length pushed then tl pushed else pushed) \<rparr>, r')))"

definition isComplete :: "particle \<Rightarrow> bool" where
  "isComplete p = (1 \<le> p_t p)"

section \<open>particle.js: the class ParticleSystem\<close>

record particle_system =
  particles :: "particle list"
  maxParticles :: nat

definition ParticleSystem :: particle_system where
  "ParticleSystem = \<lparr> particles = [], maxParticles = 1000 \<rparr>"

text \<open>\<open>Array.prototype.findIndex\<close>; the program's \<open>-1\<close> is \<open>None\<close>.\<close>

fun findIndex :: "('a \<Rightarrow> bool) \<Rightarrow> 'a list \<Rightarrow> nat option" where
  "findIndex P [] = None"
| "findIndex P (a # as) = (if P a then Some 0 else map_option Suc (findIndex P as))"

text \<open>\<open>splice(i, 1)\<close>: the element at index \<open>i\<close> is removed.\<close>

definition splice1 :: "nat \<Rightarrow> 'a list \<Rightarrow> 'a list" where
  "splice1 i as = take i as @ drop (Suc i) as"

text \<open>
  The last two lines of the loop body of \<open>spawnParticles\<close>: a position is sampled, the
  particle is built (its colour draws from the same source) and pushed.
\<close>

definition pushParticle :: "diffusion_model \<Rightarrow> particle list \<Rightarrow> rng \<Rightarrow> particle list \<times> rng" where
  "pushParticle m ps r =
     (let (x, r1) = sampleNoisy m r;
          (p, r2) = Particle x 0 r1
      in (ps @ [p], r2))"

text \<open>
  \<open>spawnParticles\<close>: the loop runs \<open>count\<close> times at most, for a count that is a natural
  number; the recursion is on the number of rounds that are left. \<open>break\<close> returns the
  state as it is.
\<close>

fun spawnParticles ::
  "nat \<Rightarrow> diffusion_model \<Rightarrow> particle_system \<Rightarrow> rng \<Rightarrow> particle_system \<times> rng" where
  "spawnParticles 0 m sys r = (sys, r)"
| "spawnParticles (Suc n) m sys r =
     (if maxParticles sys \<le> length (particles sys) then
        (case findIndex isComplete (particles sys) of
           Some completed \<Rightarrow>
             (let (ps, r') = pushParticle m (splice1 completed (particles sys)) r
              in spawnParticles n m (sys\<lparr>particles := ps\<rparr>) r')
         | None \<Rightarrow> (sys, r))
      else
        (let (ps, r') = pushParticle m (particles sys) r
         in spawnParticles n m (sys\<lparr>particles := ps\<rparr>) r'))"

text \<open>\<open>ParticleSystem.update\<close>: \<open>forEach\<close> updates the particles in order, on one source.\<close>

fun updateEach ::
  "diffusion_model \<Rightarrow> real \<Rightarrow> real \<Rightarrow> particle list \<Rightarrow> rng \<Rightarrow> particle list \<times> rng" where
  "updateEach m dt stochasticity [] r = ([], r)"
| "updateEach m dt stochasticity (p # ps) r =
     (let (p', r1) = Particle_update m dt stochasticity p r;
          (ps', r2) = updateEach m dt stochasticity ps r1
      in (p' # ps', r2))"

definition ParticleSystem_update ::
  "diffusion_model \<Rightarrow> real \<Rightarrow> real \<Rightarrow> particle_system \<Rightarrow> rng \<Rightarrow> particle_system \<times> rng" where
  "ParticleSystem_update m dt stochasticity sys r =
     (let (ps, r') = updateEach m dt stochasticity (particles sys) r
      in (sys\<lparr>particles := ps\<rparr>, r'))"

definition getActiveParticles :: "particle_system \<Rightarrow> particle list" where
  "getActiveParticles sys = filter active (particles sys)"

definition clear :: "particle_system \<Rightarrow> particle_system" where
  "clear sys = sys\<lparr>particles := []\<rparr>"

definition cleanup :: "particle_system \<Rightarrow> particle_system" where
  "cleanup sys =
     sys\<lparr>particles := filter (\<lambda>p. \<not> isComplete p \<or> 0 < length (trajectory p)) (particles sys)\<rparr>"

text \<open>
  The states a particle system can be in: the constructor's state, and every state that
  \<open>spawnParticles\<close>, \<open>update\<close>, \<open>clear\<close> and \<open>cleanup\<close> lead to from such a state, with any
  arguments and any random source.
\<close>

inductive reachable :: "particle_system \<Rightarrow> bool" where
  init: "reachable ParticleSystem"
| spawn: "reachable sys \<Longrightarrow> reachable (fst (spawnParticles count m sys r))"
| advance: "reachable sys \<Longrightarrow> reachable (fst (ParticleSystem_update m dt stochasticity sys r))"
| cleared: "reachable sys \<Longrightarrow> reachable (clear sys)"
| cleaned: "reachable sys \<Longrightarrow> reachable (cleanup sys)"

section \<open>particle.js: the class VisualizationApp\<close>

text \<open>The constructor's \<open>positionRange\<close>, the range of positions that is drawn.\<close>

definition positionRange :: "real \<times> real" where
  "positionRange = (- 2.0, 2.0)"

section \<open>The formulas of the specification\<close>

text \<open>
  The densities and the velocity field as the specification writes them, to be compared
  with the functions of the program.
\<close>

definition spec_gaussianDensity :: "real \<Rightarrow> real \<Rightarrow> real \<Rightarrow> real" where
  "spec_gaussianDensity x mean std =
     1 / sqrt (2 * pi * std\<^sup>2) * exp (- (x - mean)\<^sup>2 / (2 * std\<^sup>2))"

definition spec_noiseDensity :: "diffusion_model \<Rightarrow> real \<Rightarrow> real" where
  "spec_noiseDensity m x = spec_gaussianDensity x (noiseMean m) (noiseStd m)"

definition spec_cleanDensity :: "diffusion_model \<Rightarrow> real \<Rightarrow> real" where
  "spec_cleanDensity m x =
     modeWeight m * spec_gaussianDensity x (cleanMode1 m) (cleanStd m)
     + (1 - modeWeight m) * spec_gaussianDensity x (cleanMode2 m) (cleanStd m)"

definition spec_weight1 :: "diffusion_model \<Rightarrow> real \<Rightarrow> real \<Rightarrow> real" where
  "spec_weight1 m x t = exp (- 2 * \<bar>x - cleanMode1 m\<bar>) * (1 + 0.3 * sin (pi * t))"

definition spec_weight2 :: "diffusion_model \<Rightarrow> real \<Rightarrow> real \<Rightarrow> real" where
  "spec_weight2 m x t = exp (- 2 * \<bar>x - cleanMode2 m\<bar>) * (1 + 0.3 * cos (pi * t))"

text \<open>The two weights are normalised to sum to 1; the target is the weighted average.\<close>

definition spec_target :: "diffusion_model \<Rightarrow> real \<Rightarrow> real \<Rightarrow> real" where
  "spec_target m x t =
     (let total = spec_weight1 m x t + spec_weight2 m x t
      in spec_weight1 m x t / total * cleanMode1 m + spec_weight2 m x t / total * cleanMode2 m)"

definition spec_curvatureTerm :: "real \<Rightarrow> real \<Rightarrow> real" where
  "spec_curvatureTerm x t = sin (2 * pi * t) * 0.3 * (1 - t) * sgn x * (1 - t)"

definition spec_centerPull :: "real \<Rightarrow> real \<Rightarrow> real" where
  "spec_centerPull x t = - x * 0.4 * exp (- 1.5 * t) * (1 - t)"

definition spec_velocityField :: "diffusion_model \<Rightarrow> real \<Rightarrow> real \<Rightarrow> real" where
  "spec_velocityField m x t =
     (spec_target m x t - x) * (1 - 0.2 * t) + spec_curvatureTerm x t + spec_centerPull x t"

text \<open>
  The end-to-end scenario of the specification: \<open>x \<leftarrow> evolve(x, t, dt, stochasticity)\<close>,
  \<open>t \<leftarrow> min(t + dt, 1.0)\<close>, repeated \<open>n\<close> times on one random source.
\<close>

fun iterateEvolve ::
  "nat \<Rightarrow> diffusion_model \<Rightarrow> real \<Rightarrow> real \<Rightarrow> real \<times> real \<Rightarrow> rng \<Rightarrow> (real \<times> real) \<times> rng" where
  "iterateEvolve 0 m dt stochasticity (x, t) r = ((x, t), r)"
| "iterateEvolve (Suc n) m dt stochasticity (x, t) r =
     (let (x', r') = evolveParticle m x t dt stochasticity r
      in iterateEvolve n m dt stochasticity (x', min (t + dt) 1) r')"

section \<open>Example states\<close>

text \<open>
  A particle one step of \<open>0.02\<close> before the end, the particle it becomes by that step, and
  a particle whose trajectory holds 100 points.
\<close>

definition lastStepParticle :: particle where
  "lastStepParticle =
     \<lparr> p_x = 0, p_t = 0.98, trajectory = [(0, 0.98)], active = True, color = (180, 80, 65) \<rparr>"

definition arrivedParticle :: particle where
  "arrivedParticle = fst (Particle_update DiffusionModel 0.02 0 lastStepParticle (sconst (1 / 2)))"

definition longParticle :: particle where
  "longParticle =
     \<lparr> p_x = 0, p_t = 0, trajectory = replicate 100 (0, 0), active = True, color = (180, 80, 65) \<rparr>"

text \<open>
  Two systems at capacity, one without and one with completed particles; a system of
  two particles; the system after the first spawn; and that system advanced to the end
  and once more.
\<close>

definition fullSystem :: particle_system where
  "fullSystem = \<lparr> particles = replicate 1000 lastStepParticle, maxParticles = 1000 \<rparr>"

definition fullArrivedSystem :: particle_system where
  "fullArrivedSystem = \<lparr> particles = replicate 1000 arrivedParticle, maxParticles = 1000 \<rparr>"

definition pairSystem :: particle_system where
  "pairSystem = \<lparr> particles = [lastStepParticle, longParticle], maxParticles = 1000 \<rparr>"

definition spawnedSystem :: particle_system where
  "spawnedSystem = fst (spawnParticles (Suc 0) DiffusionModel ParticleSystem (sconst (1 / 2)))"

definition finishedSystem :: particle_system where
  "finishedSystem =
     fst (ParticleSystem_update DiffusionModel 0.02 0
       (fst (ParticleSystem_update DiffusionModel 1 0 spawnedSystem (sconst (1 / 2))))
       (sconst (1 / 2)))"

section \<open>The density model\<close>

lemma gaussian_spec: "gaussian x mean std = spec_gaussianDensity x mean std"
  by (simp add: gaussian_def spec_gaussianDensity_def Let_def power2_eq_square power_divide)

lemma getCleanDistribution_spec: "getCleanDistribution m x = spec_cleanDensity m x"
  by (simp add: getCleanDistribution_def spec_cleanDensity_def gaussian_spec)

text \<open>
  C2. For all real \<open>x\<close> and \<open>t\<close>, the noisy density is the blend
  \<open>(1 - t) * noise(x) + t * clean(x)\<close> of the noise density and the clean mixture density,
  both as the specification writes them; at \<open>t = 0\<close> it is the noise density and at
  \<open>t = 1\<close> the clean density.
\<close>

theorem getNoisyDistribution_interpolates:
  "getNoisyDistribution m x t = (1 - t) * spec_noiseDensity m x + t * spec_cleanDensity m x \<and>
   getNoisyDistribution m x 0 = spec_noiseDensity m x \<and>
   getNoisyDistribution m x 1 = spec_cleanDensity m x"
  by (simp add: getNoisyDistribution_def spec_noiseDensity_def gaussian_spec
      getCleanDistribution_spec)

lemma Math_sign_sgn: "Math_sign v = sgn v"
  by (simp add: Math_sign_def sgn_real_def)

lemma computeVectorField_spec: "computeVectorField m x t = spec_velocityField m x t"
  by (simp add: computeVectorField_def spec_velocityField_def spec_target_def
      spec_weight1_def spec_weight2_def spec_curvatureTerm_def spec_centerPull_def
      Let_def Math_sign_sgn add_divide_distrib ac_simps)

text \<open>
  C3. For all real \<open>x\<close> and \<open>t\<close>, the velocity field of the program is the formula of the
  specification: the direction towards the weight-normalised average of the two modes,
  scaled by \<open>1 - 0.2 t\<close>, plus the curvature term, plus the centre pull. At \<open>x = 0\<close> the
  sign is \<open>0\<close>, the curvature term is \<open>0\<close>, and the velocity is the scaled target alone.
\<close>

theorem computeVectorField_formula:
  "computeVectorField m x t =
     (spec_target m x t - x) * (1 - 0.2 * t) + spec_curvatureTerm x t + spec_centerPull x t \<and>
   Math_sign 0 = 0 \<and>
   spec_curvatureTerm 0 t = 0 \<and>
   computeVectorField m 0 t = spec_target m 0 t * (1 - 0.2 * t)"
  by (simp add: computeVectorField_spec spec_velocityField_def spec_curvatureTerm_def
      spec_centerPull_def Math_sign_def)

lemma Math_random_simps [simp]: "fst (Math_random r) = shd r" "snd (Math_random r) = stl r"
  by (simp_all add: Math_random_def)

lemma sampleGaussian_eq:
  "sampleGaussian mean std r =
     (mean + std * (sqrt (- 2 * ln (shd r)) * cos (2 * pi * shd (stl r))), stl (stl r))"
  by (simp add: sampleGaussian_def Math_random_def)

lemma ddpmStep_eq:
  "ddpmStep m x t dt s r =
     (flowMatchingStep m x t dt
        + sqrt dt * (1 - t) * s * (sqrt (- 2 * ln (shd r)) * cos (2 * pi * shd (stl r))),
      stl (stl r))"
  by (simp add: ddpmStep_def sampleGaussian_eq)

lemma ddpmStep_noise_at_0:
  "((\<lambda>s. fst (ddpmStep m x t dt s r) - flowMatchingStep m x t dt) \<longlongrightarrow> 0) (at 0)"
  unfolding ddpmStep_eq by (auto intro!: tendsto_eq_intros)

lemma ddpmStep_noise_at_1:
  "((\<lambda>t. fst (ddpmStep m x t dt s r) - flowMatchingStep m x t dt) \<longlongrightarrow> 0) (at 1)"
  unfolding ddpmStep_eq by (auto intro!: tendsto_eq_intros)

lemma ddpmStep_noise_bound:
  assumes "0 < shd r" "shd r < 1" "0 \<le> dt"
  shows "\<bar>fst (ddpmStep m x t dt s r) - flowMatchingStep m x t dt\<bar>
         \<le> sqrt dt * \<bar>1 - t\<bar> * \<bar>s\<bar> * sqrt (- 2 * ln (shd r))"
proof -
  have "\<bar>cos (2 * pi * shd (stl r))\<bar> \<le> 1" by simp
  moreover have "0 \<le> sqrt dt * \<bar>1 - t\<bar> * \<bar>s\<bar> * sqrt (- 2 * ln (shd r))"
    using assms by (intro mult_nonneg_nonneg) simp_all
  ultimately have "sqrt dt * \<bar>1 - t\<bar> * \<bar>s\<bar> * sqrt (- 2 * ln (shd r)) * \<bar>cos (2 * pi * shd (stl r))\<bar>
      \<le> sqrt dt * \<bar>1 - t\<bar> * \<bar>s\<bar> * sqrt (- 2 * ln (shd r)) * 1"
    by (intro mult_left_mono)
  moreover have "\<bar>fst (ddpmStep m x t dt s r) - flowMatchingStep m x t dt\<bar>
      = sqrt dt * \<bar>1 - t\<bar> * \<bar>s\<bar> * sqrt (- 2 * ln (shd r)) * \<bar>cos (2 * pi * shd (stl r))\<bar>"
    using assms by (simp add: ddpmStep_eq abs_mult)
  ultimately show ?thesis by simp
qed

text \<open>
  C4. For every time step \<open>dt \<ge> 0\<close> and every random source whose first draw is in
  \<open>(0, 1)\<close>, and for all \<open>x\<close>, \<open>t\<close> and stochasticity, the stochastic step is the
  deterministic step plus one sample of \<open>sampleGaussian\<close> with mean \<open>0\<close> and standard
  deviation \<open>sqrt dt * (1 - t) * stochasticity\<close>. The sample is the mean plus the standard
  deviation times the Box-Muller value \<open>sqrt (- 2 ln u1) * cos (2 pi u2)\<close> of the next two
  draws \<open>u1\<close>, \<open>u2\<close>, so the perturbation is that standard deviation times the sample of
  mean \<open>0\<close> and standard deviation \<open>1\<close>. Its magnitude is at most
  \<open>sqrt dt * |1 - t| * |stochasticity| * sqrt (- 2 ln u1)\<close>; it tends to \<open>0\<close> as the
  stochasticity tends to \<open>0\<close> and as \<open>t\<close> tends to \<open>1\<close>, and it is \<open>0\<close> at stochasticity \<open>0\<close>
  and at \<open>t = 1\<close>. That the Box-Muller value of two uniform draws is normally distributed
  is a statement of probability theory and is not part of the theorem.
\<close>

theorem ddpmStep_perturbation:
  "0 < shd r \<Longrightarrow> shd r < 1 \<Longrightarrow> 0 \<le> dt \<Longrightarrow>
   ddpmStep m x t dt s r =
     (flowMatchingStep m x t dt + fst (sampleGaussian 0 (sqrt dt * (1 - t) * s) r),
      snd (sampleGaussian 0 (sqrt dt * (1 - t) * s) r)) \<and>
   0 < - 2 * ln (shd r) \<and>
   sampleGaussian mean std r =
     (mean + std * (sqrt (- 2 * ln (shd r)) * cos (2 * pi * shd (stl r))), stl (stl r)) \<and>
   ddpmStep m x t dt s r =
     (flowMatchingStep m x t dt
        + sqrt dt * (1 - t) * s * (sqrt (- 2 * ln (shd r)) * cos (2 * pi * shd (stl r))),
      stl (stl r)) \<and>
   fst (sampleGaussian 0 (sqrt dt * (1 - t) * s) r)
     = sqrt dt * (1 - t) * s * fst (sampleGaussian 0 1 r) \<and>
   \<bar>fst (ddpmStep m x t dt s r) - flowMatchingStep m x t dt\<bar>
     \<le> sqrt dt * \<bar>1 - t\<bar> * \<bar>s\<bar> * sqrt (- 2 * ln (shd r)) \<and>
   ((\<lambda>s. fst (ddpmStep m x t dt s r) - flowMatchingStep m x t dt) \<longlongrightarrow> 0) (at 0) \<and>
   ((\<lambda>t. fst (ddpmStep m x t dt s r) - flowMatchingStep m x t dt) \<longlongrightarrow> 0) (at 1) \<and>
   fst (ddpmStep m x t dt 0 r) = flowMatchingStep m x t dt \<and>
   fst (ddpmStep m x 1 dt s r) = flowMatchingStep m x 1 dt"
  using ddpmStep_noise_at_0 [of m x t dt r] ddpmStep_noise_at_1 [of m x dt s r]
    ddpmStep_noise_bound [of r dt m x t s]
  by (simp add: ddpmStep_eq sampleGaussian_eq)

theorem ddpmStep_perturbation_witness:
  "0 < shd (sconst (1 / 2 :: real)) \<and> shd (sconst (1 / 2 :: real)) < 1 \<and> (0 :: real) \<le> 1 / 4 \<and>
   sampleGaussian 0 1 (sconst (1 / 2)) = (- sqrt (2 * ln 2), sconst (1 / 2)) \<and>
   ddpmStep DiffusionModel 0 0 (1 / 4) 1 (sconst (1 / 2)) =
     (flowMatchingStep DiffusionModel 0 0 (1 / 4) - sqrt (2 * ln 2) / 2, sconst (1 / 2)) \<and>
   \<bar>fst (ddpmStep DiffusionModel 0 0 (1 / 4) 1 (sconst (1 / 2)))
      - flowMatchingStep DiffusionModel 0 0 (1 / 4)\<bar> \<le> sqrt (2 * ln 2) / 2"
proof -
  have h: "0 < shd (sconst (1 / 2 :: real))" "shd (sconst (1 / 2 :: real)) < 1" "(0 :: real) \<le> 1 / 4"
    by simp_all
  have l: "ln (1 / 2 :: real) = - ln 2"
    by (simp add: ln_div)
  have c: "cos (2 * pi * (1 / 2)) = - 1" by simp
  have q: "sqrt (1 / 4 :: real) = 1 / 2"
    by (simp add: real_sqrt_divide)
  note main = ddpmStep_perturbation [OF h, of DiffusionModel 0 0 1 0 1]
  have a: "sampleGaussian 0 1 (sconst (1 / 2)) =
      (0 + 1 * (sqrt (- 2 * ln (shd (sconst (1 / 2 :: real))))
          * cos (2 * pi * shd (stl (sconst (1 / 2 :: real))))), stl (stl (sconst (1 / 2))))"
    using main by blast
  have b: "ddpmStep DiffusionModel 0 0 (1 / 4) 1 (sconst (1 / 2)) =
      (flowMatchingStep DiffusionModel 0 0 (1 / 4)
         + sqrt (1 / 4) * (1 - 0) * 1 * (sqrt (- 2 * ln (shd (sconst (1 / 2 :: real))))
          * cos (2 * pi * shd (stl (sconst (1 / 2 :: real))))), stl (stl (sconst (1 / 2))))"
    using main by blast
  have d: "\<bar>fst (ddpmStep DiffusionModel 0 0 (1 / 4) 1 (sconst (1 / 2)))
      - flowMatchingStep DiffusionModel 0 0 (1 / 4)\<bar>
      \<le> sqrt (1 / 4) * \<bar>1 - 0\<bar> * \<bar>1\<bar> * sqrt (- 2 * ln (shd (sconst (1 / 2 :: real))))"
    using main by blast
  have a': "sampleGaussian 0 1 (sconst (1 / 2)) = (- sqrt (2 * ln 2), sconst (1 / 2))"
    unfolding a by (simp add: l)
  have b': "ddpmStep DiffusionModel 0 0 (1 / 4) 1 (sconst (1 / 2)) =
     (flowMatchingStep DiffusionModel 0 0 (1 / 4) - sqrt (2 * ln 2) / 2, sconst (1 / 2))"
    unfolding b q by (simp add: l)
  have d': "\<bar>fst (ddpmStep DiffusionModel 0 0 (1 / 4) 1 (sconst (1 / 2)))
      - flowMatchingStep DiffusionModel 0 0 (1 / 4)\<bar> \<le> sqrt (2 * ln 2) / 2"
    using d unfolding q by (simp add: l)
  from h a' b' d' show ?thesis by blast
qed

text \<open>
  C5. \<open>evolveParticle\<close> takes the deterministic step exactly when the stochasticity is
  \<open>0\<close> and the stochastic step otherwise. At stochasticity \<open>0\<close> the random source is
  neither read nor consumed, so two calls with the same \<open>x\<close>, \<open>t\<close> and \<open>dt\<close> return the
  same position whatever the two random sources are.
\<close>

theorem evolveParticle_dispatch:
  "evolveParticle m x t dt s r =
     (if s = 0 then (flowMatchingStep m x t dt, r) else ddpmStep m x t dt s r) \<and>
   evolveParticle m x t dt 0 r1 = (flowMatchingStep m x t dt, r1) \<and>
   fst (evolveParticle m x t dt 0 r1) = fst (evolveParticle m x t dt 0 r2)"
  by (simp add: evolveParticle_def)

section \<open>The deterministic flow stays between the modes\<close>

text \<open>
  One deterministic step from a position in \<open>[-1, 1]\<close> at a time in \<open>[0, 1]\<close> ends strictly
  inside \<open>(-1, 1)\<close>: the step is a contraction of \<open>x\<close> plus a pull towards a target that
  lies strictly between the modes plus the curvature term, and the centre pull outweighs
  the curvature term because \<open>exp (- 1.5 t) \<ge> 0.75 (1 - t)\<close>.
\<close>

lemma exp_tangent:
  fixes t :: real
  assumes "t \<le> 1"
  shows "3 / 4 * (1 - t) \<le> exp (- t * 1.5)"
proof -
  have "exp (1 / 2) \<le> (2::real)"
    using real_exp_bound_lemma [of "1 / 2"] by simp
  then have half: "1 / 2 \<le> exp (- (1 / 2) :: real)"
    by (simp add: exp_minus field_simps)
  have "1 + (1 / 2 - t * 1.5) \<le> exp (1 / 2 - t * 1.5)"
    by (rule exp_ge_add_one_self)
  moreover have "exp (- t * 1.5) = exp (- (1 / 2)) * exp (1 / 2 - t * 1.5)"
    by (simp add: exp_add [symmetric])
  moreover have "0 \<le> 1 + (1 / 2 - t * 1.5)" using assms by simp
  ultimately have "exp (- (1 / 2)) * (1 + (1 / 2 - t * 1.5)) \<le> exp (- t * 1.5)"
    by (simp add: mult_left_mono)
  moreover have "1 / 2 * (1 + (1 / 2 - t * 1.5)) \<le> exp (- (1 / 2)) * (1 + (1 / 2 - t * 1.5))"
    using half \<open>0 \<le> 1 + (1 / 2 - t * 1.5)\<close> by (rule mult_right_mono)
  ultimately show ?thesis by simp
qed

lemma target_strict:
  fixes w1 w2 :: real
  assumes "0 < w1" "0 < w2"
  shows "\<bar>(w1 * (- 1) + w2 * 1) / (w1 + w2)\<bar> < 1"
  using assms by (simp add: field_simps abs_less_iff)

lemma weight_pos:
  fixes d a :: real
  assumes "\<bar>a\<bar> \<le> 1"
  shows "0 < exp d * (1 + 0.3 * a)"
proof -
  have "0 < 1 + 0.3 * a" using assms by (simp add: abs_le_iff)
  then show ?thesis by simp
qed

lemma Math_sign_abs: "\<bar>Math_sign v\<bar> \<le> 1"
  by (simp add: Math_sign_def)

lemma flow_step_bound:
  fixes x t dt :: real
  assumes t: "0 \<le> t" "t \<le> 1" and x: "\<bar>x\<bar> \<le> 1" and dt: "0 < dt" "dt \<le> 1 / 2"
  shows "\<bar>flowMatchingStep DiffusionModel x t dt\<bar> < 1"
proof -
  define w1 where "w1 = exp (- \<bar>x - (- 1)\<bar> * 2) * (1 + 0.3 * sin (t * pi))"
  define w2 where "w2 = exp (- \<bar>x - 1\<bar> * 2) * (1 + 0.3 * cos (t * pi))"
  define T where "T = (w1 * (- 1) + w2 * 1) / (w1 + w2)"
  define c where "c = 1 - t * 0.2"
  define K where "K = sin (t * pi * 2) * 0.3 * (1 - t)"
  define E where "E = exp (- t * 1.5)"
  define A where "A = 1 - dt * (c + 0.4 * E * (1 - t))"
  have velocity: "computeVectorField DiffusionModel x t =
      (T - x) * c + K * Math_sign x * (1 - t) + - x * 0.4 * E * (1 - t)"
    by (simp add: computeVectorField_def DiffusionModel_def Let_def
        w1_def w2_def T_def c_def K_def E_def)
  have step: "flowMatchingStep DiffusionModel x t dt =
      x * A + dt * (T * c) + dt * (K * Math_sign x * (1 - t))"
    unfolding flowMatchingStep_def Let_def velocity A_def by (simp add: algebra_simps)
  have "0 < w1" unfolding w1_def by (rule weight_pos) simp
  moreover have "0 < w2" unfolding w2_def by (rule weight_pos) simp
  ultimately have T: "\<bar>T\<bar> < 1" unfolding T_def by (rule target_strict)
  have c: "0 < c" "c \<le> 1" using t by (simp_all add: c_def)
  have E: "0 < E" "E \<le> 1" "3 / 4 * (1 - t) \<le> E"
    using t exp_tangent [of t] by (simp_all add: E_def)
  have s: "0 \<le> 1 - t" "1 - t \<le> 1" using t by simp_all
  have "E * (1 - t) \<le> 1 * 1"
    using E(2) s(2) E(1) s(1) by (intro mult_mono) simp_all
  with c have "c + 0.4 * E * (1 - t) \<le> 2" by simp
  moreover have "0 \<le> c + 0.4 * E * (1 - t)"
    using c E s by (intro add_nonneg_nonneg mult_nonneg_nonneg) simp_all
  ultimately have "dt * (c + 0.4 * E * (1 - t)) \<le> 1 / 2 * 2"
    using dt by (intro mult_mono) simp_all
  then have A: "0 \<le> A" by (simp add: A_def)
  have "\<bar>x * A\<bar> = \<bar>x\<bar> * A" using A by (simp add: abs_mult)
  also have "\<dots> \<le> 1 * A" using x A by (rule mult_right_mono)
  finally have b1: "\<bar>x * A\<bar> \<le> A" by simp
  have "\<bar>dt * (T * c)\<bar> = (dt * c) * \<bar>T\<bar>"
    using dt c by (simp add: abs_mult)
  also have "\<dots> < (dt * c) * 1"
    using T dt c by (intro mult_strict_left_mono) simp_all
  finally have b2: "\<bar>dt * (T * c)\<bar> < dt * c" by simp
  have "\<bar>sin (t * pi * 2) * Math_sign x\<bar> \<le> 1 * 1"
    unfolding abs_mult by (intro mult_mono Math_sign_abs) simp_all
  then have "\<bar>sin (t * pi * 2) * Math_sign x\<bar> * (dt * 0.3 * (1 - t) * (1 - t))
      \<le> 1 * (dt * 0.3 * (1 - t) * (1 - t))"
    using dt s by (intro mult_right_mono) simp_all
  moreover have "\<bar>dt * (K * Math_sign x * (1 - t))\<bar> =
      \<bar>sin (t * pi * 2) * Math_sign x\<bar> * (dt * 0.3 * (1 - t) * (1 - t))"
    using dt s by (simp add: K_def abs_mult)
  ultimately have b3: "\<bar>dt * (K * Math_sign x * (1 - t))\<bar> \<le> dt * 0.3 * (1 - t) * (1 - t)"
    by simp
  have "0 \<le> (dt * (1 - t)) * (0.4 * E - 0.3 * (1 - t))"
    using dt s E(3) by (intro mult_nonneg_nonneg) simp_all
  then have b4: "A + dt * c + dt * 0.3 * (1 - t) * (1 - t) \<le> 1"
    by (simp add: A_def algebra_simps)
  have "\<bar>flowMatchingStep DiffusionModel x t dt\<bar>
      \<le> \<bar>x * A\<bar> + \<bar>dt * (T * c)\<bar> + \<bar>dt * (K * Math_sign x * (1 - t))\<bar>"
    unfolding step by (intro order_trans [OF abs_triangle_ineq] add_mono order_refl)
  with b1 b2 b3 b4 show ?thesis by linarith
qed

lemma iterateEvolve_flow:
  fixes x t dt :: real
  assumes "0 \<le> t" "t \<le> 1" "\<bar>x\<bar> < 1" "0 < dt" "dt \<le> 1 / 2"
  shows "\<bar>fst (fst (iterateEvolve n DiffusionModel dt 0 (x, t) r))\<bar> < 1 \<and>
         snd (fst (iterateEvolve n DiffusionModel dt 0 (x, t) r)) = min (t + real n * dt) 1 \<and>
         snd (iterateEvolve n DiffusionModel dt 0 (x, t) r) = r"
  using assms
proof (induction n arbitrary: x t)
  case 0
  then show ?case by simp
next
  case (Suc n)
  have "\<bar>flowMatchingStep DiffusionModel x t dt\<bar> < 1"
    using Suc.prems by (intro flow_step_bound) simp_all
  moreover have "0 \<le> min (t + dt) 1" "min (t + dt) 1 \<le> 1"
    using Suc.prems by simp_all
  ultimately have IH:
    "\<bar>fst (fst (iterateEvolve n DiffusionModel dt 0
          (flowMatchingStep DiffusionModel x t dt, min (t + dt) 1) r))\<bar> < 1 \<and>
     snd (fst (iterateEvolve n DiffusionModel dt 0
          (flowMatchingStep DiffusionModel x t dt, min (t + dt) 1) r))
       = min (min (t + dt) 1 + real n * dt) 1 \<and>
     snd (iterateEvolve n DiffusionModel dt 0
          (flowMatchingStep DiffusionModel x t dt, min (t + dt) 1) r) = r"
    using Suc.prems by (intro Suc.IH) simp_all
  have "0 \<le> real n * dt" using Suc.prems by simp
  then have "min (min (t + dt) 1 + real n * dt) 1 = min (t + real (Suc n) * dt) 1"
    by (simp add: min_def algebra_simps)
  with IH show ?case by (simp add: evolveParticle_def)
qed


text \<open>
  C9. From \<open>x = 0\<close>, \<open>t = 0\<close>, fifty rounds of \<open>x \<leftarrow> evolve(x, t, 0.02, 0)\<close>,
  \<open>t \<leftarrow> min(t + 0.02, 1.0)\<close> end at \<open>t = 1\<close> with \<open>x\<close> strictly between the two clean-mode
  centres \<open>-1\<close> and \<open>1\<close>, hence strictly inside the position range \<open>[-2, 2]\<close> that is drawn.
\<close>

theorem deterministic_flow_scenario:
  "snd (fst (iterateEvolve 50 DiffusionModel 0.02 0 (0, 0) r)) = 1 \<and>
   cleanMode1 DiffusionModel < fst (fst (iterateEvolve 50 DiffusionModel 0.02 0 (0, 0) r)) \<and>
   fst (fst (iterateEvolve 50 DiffusionModel 0.02 0 (0, 0) r)) < cleanMode2 DiffusionModel \<and>
   fst positionRange < fst (fst (iterateEvolve 50 DiffusionModel 0.02 0 (0, 0) r)) \<and>
   fst (fst (iterateEvolve 50 DiffusionModel 0.02 0 (0, 0) r)) < snd positionRange"
proof -
  have "\<bar>fst (fst (iterateEvolve 50 DiffusionModel 0.02 0 (0, 0) r))\<bar> < 1 \<and>
        snd (fst (iterateEvolve 50 DiffusionModel 0.02 0 (0, 0) r)) = min (0 + real 50 * 0.02) 1 \<and>
        snd (iterateEvolve 50 DiffusionModel 0.02 0 (0, 0) r) = r"
    by (rule iterateEvolve_flow) simp_all
  then show ?thesis
    by (simp add: DiffusionModel_def positionRange_def abs_less_iff)
qed

section \<open>Particles\<close>

lemma Particle_fields:
  "p_x (fst (Particle x t r)) = x"
  "p_t (fst (Particle x t r)) = t"
  "trajectory (fst (Particle x t r)) = [(x, t)]"
  "active (fst (Particle x t r))"
  by (simp_all add: Particle_def split_def Let_def)

lemma Particle_update_idle:
  "\<not> active p \<or> 1 \<le> p_t p \<Longrightarrow> Particle_update m dt s p r = (p\<lparr>active := False\<rparr>, r)"
  by (simp add: Particle_update_def)

lemma Particle_update_move:
  "active p \<Longrightarrow> p_t p < 1 \<Longrightarrow>
   Particle_update m dt s p r =
     (p\<lparr> p_x := fst (evolveParticle m (p_x p) (p_t p) dt s r),
         p_t := min (p_t p + dt) 1,
         trajectory :=
           (if length (trajectory p) < 100
            then trajectory p @ [(fst (evolveParticle m (p_x p) (p_t p) dt s r), min (p_t p + dt) 1)]
            else tl (trajectory p) @ [(fst (evolveParticle m (p_x p) (p_t p) dt s r), min (p_t p + dt) 1)]) \<rparr>,
      snd (evolveParticle m (p_x p) (p_t p) dt s r))"
  by (cases "trajectory p") (auto simp add: Particle_update_def split_def Let_def)

lemma updateEach_length: "length (fst (updateEach m dt s ps r)) = length ps"
  by (induction ps arbitrary: r) (simp_all add: split_def Let_def)

lemma updateEach_all:
  assumes step: "\<And>p r. Q p \<Longrightarrow> Q (fst (Particle_update m dt s p r))"
  shows "\<forall>p\<in>set ps. Q p \<Longrightarrow> \<forall>p\<in>set (fst (updateEach m dt s ps r)). Q p"
  by (induction ps arbitrary: r) (simp_all add: split_def Let_def step)

lemma ParticleSystem_update_fields:
  "particles (fst (ParticleSystem_update m dt s sys r)) = fst (updateEach m dt s (particles sys) r)"
  "maxParticles (fst (ParticleSystem_update m dt s sys r)) = maxParticles sys"
  by (simp_all add: ParticleSystem_update_def split_def Let_def)

text \<open>
  \<open>ParticleSystem.update\<close> leaves every particle at its index and gives it one call of
  \<open>Particle.update\<close>, on the random source the particles before it have left.
\<close>

lemma updateEach_nth_source:
  "i < length ps \<Longrightarrow>
   fst (updateEach m dt s ps r) ! i =
     fst (Particle_update m dt s (ps ! i) (snd (updateEach m dt s (take i ps) r)))"
proof (induction ps arbitrary: i r)
  case Nil
  then show ?case by simp
next
  case (Cons p ps)
  show ?case
  proof (cases i)
    case 0
    then show ?thesis by (simp add: split_def Let_def)
  next
    case (Suc k)
    with Cons.prems have "k < length ps" by simp
    from Cons.IH [OF this, of "snd (Particle_update m dt s p r)"] Suc
    show ?thesis by (simp add: split_def Let_def)
  qed
qed

lemma updateEach_source_Suc:
  "i < length ps \<Longrightarrow>
   snd (updateEach m dt s (take (Suc i) ps) r) =
     snd (Particle_update m dt s (ps ! i) (snd (updateEach m dt s (take i ps) r)))"
proof (induction ps arbitrary: i r)
  case Nil
  then show ?case by simp
next
  case (Cons p ps)
  show ?case
  proof (cases i)
    case 0
    then show ?thesis by (simp add: split_def Let_def)
  next
    case (Suc k)
    with Cons.prems have "k < length ps" by simp
    from Cons.IH [OF this, of "snd (Particle_update m dt s p r)"] Suc
    show ?thesis by (simp add: split_def Let_def)
  qed
qed

lemma pushParticle_eq:
  "fst (pushParticle m ps r) =
     ps @ [fst (Particle (fst (sampleNoisy m r)) 0 (snd (sampleNoisy m r)))]"
  by (simp add: pushParticle_def split_def Let_def)

lemma set_splice1: "set (splice1 i as) \<subseteq> set as"
  unfolding splice1_def using set_take_subset [of i as] set_drop_subset [of "Suc i" as] by auto

lemma pushParticle_all:
  assumes new: "\<And>x r. Q (fst (Particle x 0 r))"
  shows "\<forall>p\<in>set ps. Q p \<Longrightarrow> \<forall>p\<in>set (fst (pushParticle m ps r)). Q p"
  by (simp add: pushParticle_eq new)

lemma spawnParticles_all:
  assumes new: "\<And>x r. Q (fst (Particle x 0 r))"
  shows "\<forall>p\<in>set (particles sys). Q p \<Longrightarrow>
         \<forall>p\<in>set (particles (fst (spawnParticles n m sys r))). Q p"
proof (induction n arbitrary: sys r)
  case 0
  then show ?case by simp
next
  case (Suc n)
  have spliced: "\<forall>p\<in>set (splice1 i (particles sys)). Q p" for i
    using Suc.prems set_splice1 [of i "particles sys"] by blast
  show ?case
  proof (cases "maxParticles sys \<le> length (particles sys)")
    case full: True
    show ?thesis
    proof (cases "findIndex isComplete (particles sys)")
      case None
      with full Suc.prems show ?thesis by simp
    next
      case (Some i)
      have "\<forall>p\<in>set (particles (fst (spawnParticles n m
                (sys\<lparr>particles := fst (pushParticle m (splice1 i (particles sys)) r)\<rparr>)
                (snd (pushParticle m (splice1 i (particles sys)) r))))). Q p"
        by (rule Suc.IH) (simp add: pushParticle_all [OF new spliced])
      with full Some show ?thesis by (simp add: split_def Let_def)
    qed
  next
    case False
    have "\<forall>p\<in>set (particles (fst (spawnParticles n m
              (sys\<lparr>particles := fst (pushParticle m (particles sys) r)\<rparr>)
              (snd (pushParticle m (particles sys) r))))). Q p"
      by (rule Suc.IH) (simp add: pushParticle_all [OF new Suc.prems])
    with False show ?thesis by (simp add: split_def Let_def)
  qed
qed

lemma reachable_all:
  assumes new: "\<And>x r. Q (fst (Particle x 0 r))"
    and step: "\<And>m dt s p r. Q p \<Longrightarrow> Q (fst (Particle_update m dt s p r))"
  shows "reachable sys \<Longrightarrow> \<forall>p\<in>set (particles sys). Q p"
proof (induction rule: reachable.induct)
  case init
  show ?case by (simp add: ParticleSystem_def)
next
  case (spawn sys count m r)
  then show ?case using new spawnParticles_all [of Q sys count m r] by simp
next
  case (advance sys m dt stochasticity r)
  then show ?case
    using updateEach_all [of Q m dt stochasticity "particles sys" r, OF step]
    by (simp add: ParticleSystem_update_fields)
next
  case (cleared sys)
  show ?case by (simp add: clear_def)
next
  case (cleaned sys)
  then show ?case by (simp add: cleanup_def)
qed

lemma findIndex_Some_less: "findIndex P as = Some i \<Longrightarrow> i < length as"
  by (induction as arbitrary: i) (auto split: if_splits)

lemma findIndex_Some_first:
  "findIndex P as = Some i \<Longrightarrow> P (as ! i) \<and> (\<forall>j<i. \<not> P (as ! j))"
proof (induction as arbitrary: i)
  case Nil
  then show ?case by simp
next
  case (Cons a as)
  show ?case
  proof (cases "P a")
    case True
    with Cons.prems show ?thesis by simp
  next
    case False
    with Cons.prems obtain k where k: "findIndex P as = Some k" "i = Suc k" by auto
    from Cons.IH [OF k(1)] False k(2) show ?thesis
      by (auto simp: nth_Cons split: nat.splits)
  qed
qed

lemma findIndex_None: "findIndex P as = None \<longleftrightarrow> (\<forall>a\<in>set as. \<not> P a)"
  by (induction as) auto

lemma spawnParticles_capacity:
  "length (particles sys) \<le> maxParticles sys \<Longrightarrow>
   length (particles (fst (spawnParticles n m sys r))) \<le> maxParticles sys \<and>
   maxParticles (fst (spawnParticles n m sys r)) = maxParticles sys"
proof (induction n arbitrary: sys r)
  case 0
  then show ?case by simp
next
  case (Suc n)
  show ?case
  proof (cases "maxParticles sys \<le> length (particles sys)")
    case full: True
    show ?thesis
    proof (cases "findIndex isComplete (particles sys)")
      case None
      with full Suc.prems show ?thesis by simp
    next
      case (Some i)
      then have "i < length (particles sys)" by (rule findIndex_Some_less)
      then have "length (splice1 i (particles sys)) + 1 = length (particles sys)"
        by (simp add: splice1_def)
      with Suc.prems
      have "length (particles (sys\<lparr>particles := fst (pushParticle m (splice1 i (particles sys)) r)\<rparr>))
            \<le> maxParticles (sys\<lparr>particles := fst (pushParticle m (splice1 i (particles sys)) r)\<rparr>)"
        by (simp add: pushParticle_eq)
      from Suc.IH [OF this, of "snd (pushParticle m (splice1 i (particles sys)) r)"] full Some
      show ?thesis by (simp add: split_def Let_def)
    qed
  next
    case False
    then have "length (particles (sys\<lparr>particles := fst (pushParticle m (particles sys) r)\<rparr>))
            \<le> maxParticles (sys\<lparr>particles := fst (pushParticle m (particles sys) r)\<rparr>)"
      by (simp add: pushParticle_eq)
    from Suc.IH [OF this, of "snd (pushParticle m (particles sys) r)"] False
    show ?thesis by (simp add: split_def Let_def)
  qed
qed

lemma reachable_capacity:
  "reachable sys \<Longrightarrow> length (particles sys) \<le> maxParticles sys \<and> maxParticles sys = 1000"
proof (induction rule: reachable.induct)
  case init
  show ?case by (simp add: ParticleSystem_def)
next
  case (spawn sys count m r)
  then show ?case using spawnParticles_capacity [of sys count m r] by simp
next
  case (advance sys m dt stochasticity r)
  then show ?case
    by (simp add: ParticleSystem_update_fields updateEach_length)
next
  case (cleared sys)
  then show ?case by (simp add: clear_def)
next
  case (cleaned sys)
  have "length (particles (cleanup sys)) \<le> length (particles sys)"
    unfolding cleanup_def by simp
  moreover have "maxParticles (cleanup sys) = maxParticles sys"
    by (simp add: cleanup_def)
  ultimately show ?case using cleaned.IH by simp
qed



text \<open>
  C1 (amended). One call of \<open>ParticleSystem.update\<close> keeps the number of particles, and for
  every index \<open>i\<close> whose particle is active with \<open>t < 1\<close> it gives that particle one call
  of \<open>Particle.update\<close> on the random source the particles before it have left: the call
  computes \<open>x' = evolveParticle(x, t, dt, stochasticity)\<close> and \<open>t' = min(t + dt, 1)\<close>,
  appends \<open>(x', t')\<close> to the trajectory (after which the oldest point is dropped if the
  trajectory held 100 points), keeps the colour, and leaves the particle active, also
  when \<open>t'\<close> is \<open>1\<close>. The particle is marked inactive by the next call of
  \<open>ParticleSystem.update\<close>, whose guard finds \<open>t \<ge> 1\<close>.
\<close>

theorem ParticleSystem_update_active:
  "i < length (particles sys) \<Longrightarrow> active (particles sys ! i) \<Longrightarrow> p_t (particles sys ! i) < 1 \<Longrightarrow>
   (let p = particles sys ! i;
        ri = snd (updateEach m dt s (take i (particles sys)) r);
        x' = fst (evolveParticle m (p_x p) (p_t p) dt s ri);
        t' = min (p_t p + dt) 1;
        sys' = fst (ParticleSystem_update m dt s sys r);
        p' = particles sys' ! i
    in length (particles sys') = length (particles sys) \<and>
       p' = fst (Particle_update m dt s p ri) \<and>
       p_x p' = x' \<and> p_t p' = t' \<and>
       trajectory p' =
         (if length (trajectory p) < 100 then trajectory p else tl (trajectory p)) @ [(x', t')] \<and>
       color p' = color p \<and>
       active p' \<and>
       snd (updateEach m dt s (take (Suc i) (particles sys)) r)
         = snd (evolveParticle m (p_x p) (p_t p) dt s ri) \<and>
       (t' = 1 \<longrightarrow>
          \<not> active (particles (fst (ParticleSystem_update m2 dt2 s2 sys' r2)) ! i)))"
proof -
  assume i: "i < length (particles sys)"
    and act: "active (particles sys ! i)" and t: "p_t (particles sys ! i) < 1"
  define p where "p = particles sys ! i"
  define ri where "ri = snd (updateEach m dt s (take i (particles sys)) r)"
  define sys' where "sys' = fst (ParticleSystem_update m dt s sys r)"
  define p' where "p' = particles sys' ! i"
  have len: "length (particles sys') = length (particles sys)"
    by (simp add: sys'_def ParticleSystem_update_fields updateEach_length)
  have p': "p' = fst (Particle_update m dt s p ri)"
    using i by (simp add: p'_def sys'_def p_def ri_def ParticleSystem_update_fields
        updateEach_nth_source)
  have pa: "active p" "p_t p < 1" using act t by (simp_all add: p_def)
  have src: "snd (updateEach m dt s (take (Suc i) (particles sys)) r)
      = snd (evolveParticle m (p_x p) (p_t p) dt s ri)"
    using i pa by (simp add: updateEach_source_Suc p_def ri_def Particle_update_move)
  have i': "i < length (particles sys')" using i len by simp
  have nxt: "particles (fst (ParticleSystem_update m2 dt2 s2 sys' r2)) ! i =
      fst (Particle_update m2 dt2 s2 p' (snd (updateEach m2 dt2 s2 (take i (particles sys')) r2)))"
    using i' by (simp add: p'_def ParticleSystem_update_fields updateEach_nth_source)
  have last: "min (p_t p + dt) 1 = 1 \<longrightarrow>
      \<not> active (particles (fst (ParticleSystem_update m2 dt2 s2 sys' r2)) ! i)"
    unfolding nxt using pa by (simp add: p' Particle_update_move Particle_update_idle)
  show ?thesis
    using len p' src last pa
    unfolding Let_def p_def [symmetric] ri_def [symmetric] sys'_def [symmetric] p'_def [symmetric]
    by (simp add: Particle_update_move)
qed

theorem ParticleSystem_update_active_witness:
  "length (particles pairSystem) = 2 \<and>
   active (particles pairSystem ! 0) \<and> p_t (particles pairSystem ! 0) < 1 \<and>
   length (particles (fst (ParticleSystem_update DiffusionModel 0.02 0 pairSystem (sconst (1 / 2))))) = 2 \<and>
   p_t (particles (fst (ParticleSystem_update DiffusionModel 0.02 0 pairSystem (sconst (1 / 2)))) ! 0) = 1 \<and>
   p_x (particles (fst (ParticleSystem_update DiffusionModel 0.02 0 pairSystem (sconst (1 / 2)))) ! 0)
     = flowMatchingStep DiffusionModel 0 0.98 0.02 \<and>
   trajectory (particles (fst (ParticleSystem_update DiffusionModel 0.02 0 pairSystem (sconst (1 / 2)))) ! 0)
     = [(0, 0.98), (flowMatchingStep DiffusionModel 0 0.98 0.02, 1)] \<and>
   active (particles (fst (ParticleSystem_update DiffusionModel 0.02 0 pairSystem (sconst (1 / 2)))) ! 0) \<and>
   \<not> active (particles (fst (ParticleSystem_update DiffusionModel 0.02 0
       (fst (ParticleSystem_update DiffusionModel 0.02 0 pairSystem (sconst (1 / 2))))
       (sconst (1 / 2)))) ! 0)"
proof -
  have pre: "length (particles pairSystem) = 2" "particles pairSystem ! 0 = lastStepParticle"
    by (simp_all add: pairSystem_def)
  have lp: "active lastStepParticle" "p_t lastStepParticle < 1" "p_x lastStepParticle = 0"
    "p_t lastStepParticle = 0.98" "trajectory lastStepParticle = [(0, 0.98)]"
    by (simp_all add: lastStepParticle_def)
  have hyp: "0 < length (particles pairSystem)" "active (particles pairSystem ! 0)"
    "p_t (particles pairSystem ! 0) < 1"
    using pre lp by simp_all
  note main = ParticleSystem_update_active [OF hyp, of DiffusionModel "0.02" 0 "sconst (1 / 2)"
        DiffusionModel "0.02" 0 "sconst (1 / 2)", unfolded Let_def pre]
  have a: "length (particles (fst (ParticleSystem_update DiffusionModel 0.02 0 pairSystem
      (sconst (1 / 2))))) = 2"
    using main by blast
  have b: "p_t (particles (fst (ParticleSystem_update DiffusionModel 0.02 0 pairSystem
      (sconst (1 / 2)))) ! 0) = min (p_t lastStepParticle + 0.02) 1"
    using main by blast
  have c: "p_x (particles (fst (ParticleSystem_update DiffusionModel 0.02 0 pairSystem
      (sconst (1 / 2)))) ! 0) = fst (evolveParticle DiffusionModel (p_x lastStepParticle)
        (p_t lastStepParticle) 0.02 0 (snd (updateEach DiffusionModel 0.02 0 (take 0 (particles pairSystem)) (sconst (1 / 2)))))"
    using main by blast
  have d: "trajectory (particles (fst (ParticleSystem_update DiffusionModel 0.02 0 pairSystem
      (sconst (1 / 2)))) ! 0) =
      (if length (trajectory lastStepParticle) < 100 then trajectory lastStepParticle
       else tl (trajectory lastStepParticle))
      @ [(fst (evolveParticle DiffusionModel (p_x lastStepParticle)
        (p_t lastStepParticle) 0.02 0 (snd (updateEach DiffusionModel 0.02 0 (take 0 (particles pairSystem)) (sconst (1 / 2))))),
          min (p_t lastStepParticle + 0.02) 1)]"
    using main by blast
  have e: "active (particles (fst (ParticleSystem_update DiffusionModel 0.02 0 pairSystem
      (sconst (1 / 2)))) ! 0)"
    using main by blast
  have t1: "min (p_t lastStepParticle + 0.02) 1 = 1"
    by (simp add: lp)
  have f: "\<not> active (particles (fst (ParticleSystem_update DiffusionModel 0.02 0
       (fst (ParticleSystem_update DiffusionModel 0.02 0 pairSystem (sconst (1 / 2))))
       (sconst (1 / 2)))) ! 0)"
    using main t1 by blast
  show ?thesis
    unfolding a b c d using e f by (simp add: pre lp evolveParticle_def)
qed

text \<open>
  The step that reaches \<open>t' = 1\<close> does not mark the particle inactive: the particle at
  \<open>t = 0.98\<close> advanced by \<open>0.02\<close> is at \<open>t = 1\<close> and still active, alone and as the first
  particle of a system.
\<close>

theorem Particle_update_not_inactive_at_end:
  "active lastStepParticle \<and> p_t lastStepParticle < 1 \<and>
   p_t (fst (Particle_update DiffusionModel 0.02 0 lastStepParticle (sconst (1 / 2)))) = 1 \<and>
   active (fst (Particle_update DiffusionModel 0.02 0 lastStepParticle (sconst (1 / 2)))) = True \<and>
   particles pairSystem ! 0 = lastStepParticle \<and>
   p_t (particles (fst (ParticleSystem_update DiffusionModel 0.02 0 pairSystem (sconst (1 / 2)))) ! 0) = 1 \<and>
   active (particles (fst (ParticleSystem_update DiffusionModel 0.02 0 pairSystem (sconst (1 / 2)))) ! 0)
     = True"
  by (simp add: pairSystem_def longParticle_def lastStepParticle_def ParticleSystem_update_def
      Particle_update_def evolveParticle_def split_def Let_def)

text \<open>
  C8 (amended). For every particle that is inactive or has \<open>t \<ge> 1\<close>, one call of \<open>update\<close>
  keeps position, time, trajectory and colour, draws nothing from the random source, and
  returns the particle with the active flag false. An inactive particle is returned
  unchanged; an active particle at \<open>t \<ge> 1\<close> is marked inactive.
\<close>

theorem Particle_update_idle_frame:
  "\<not> active p \<or> 1 \<le> p_t p \<Longrightarrow>
   Particle_update m dt s p r = (p\<lparr>active := False\<rparr>, r) \<and>
   (\<not> active p \<longrightarrow> Particle_update m dt s p r = (p, r))"
  by (auto simp add: Particle_update_idle)

theorem Particle_update_idle_frame_witness:
  "1 \<le> p_t arrivedParticle \<and>
   Particle_update DiffusionModel 0.02 0 arrivedParticle (sconst (1 / 2))
     = (arrivedParticle\<lparr>active := False\<rparr>, sconst (1 / 2)) \<and>
   p_t arrivedParticle = 1 \<and>
   trajectory arrivedParticle = [(0, 0.98), (flowMatchingStep DiffusionModel 0 0.98 0.02, 1)]"
  using Particle_update_idle_frame [of arrivedParticle DiffusionModel "0.02" 0 "sconst (1 / 2)"]
  by (simp add: arrivedParticle_def lastStepParticle_def Particle_update_def split_def Let_def
      evolveParticle_def)


text \<open>
  The particle that has just arrived at \<open>t = 1\<close> is active, and the next call of \<open>update\<close>
  changes its active flag.
\<close>

theorem Particle_update_changes_active_flag:
  "1 \<le> p_t arrivedParticle \<and> active arrivedParticle = True \<and>
   active (fst (Particle_update DiffusionModel 0.02 0 arrivedParticle (sconst (1 / 2)))) = False"
  by (simp add: arrivedParticle_def lastStepParticle_def Particle_update_def split_def Let_def)



section \<open>The population\<close>

lemma spawnParticles_full_none:
  assumes "maxParticles sys \<le> length (particles sys)"
    and "\<forall>p\<in>set (particles sys). \<not> isComplete p"
  shows "spawnParticles count m sys r = (sys, r)"
proof (cases count)
  case 0
  then show ?thesis by simp
next
  case (Suc n)
  from assms(2) have "findIndex isComplete (particles sys) = None"
    by (simp add: findIndex_None)
  with assms(1) Suc show ?thesis by simp
qed

lemma findIndex_exists:
  "\<exists>a\<in>set as. P a \<Longrightarrow> \<exists>i. findIndex P as = Some i"
  using findIndex_None [of P as] by (cases "findIndex P as") auto

lemma spawnParticles_full_evict:
  assumes "maxParticles sys \<le> length (particles sys)"
    and "\<exists>p\<in>set (particles sys). isComplete p"
  shows "\<exists>i<length (particles sys).
           isComplete (particles sys ! i) \<and> (\<forall>j<i. \<not> isComplete (particles sys ! j)) \<and>
           spawnParticles (Suc n) m sys r =
             spawnParticles n m
               (sys\<lparr>particles := take i (particles sys) @ drop (Suc i) (particles sys)
                  @ [fst (Particle (fst (sampleNoisy m r)) 0 (snd (sampleNoisy m r)))]\<rparr>)
               (snd (Particle (fst (sampleNoisy m r)) 0 (snd (sampleNoisy m r))))"
proof -
  from assms(2) have "\<exists>i. findIndex isComplete (particles sys) = Some i"
    by (rule findIndex_exists)
  then obtain i where i: "findIndex isComplete (particles sys) = Some i" ..
  have push: "pushParticle m (splice1 i (particles sys)) r =
      (take i (particles sys) @ drop (Suc i) (particles sys)
         @ [fst (Particle (fst (sampleNoisy m r)) 0 (snd (sampleNoisy m r)))],
       snd (Particle (fst (sampleNoisy m r)) 0 (snd (sampleNoisy m r))))"
    by (simp add: pushParticle_def splice1_def split_def Let_def)
  have "spawnParticles (Suc n) m sys r =
      spawnParticles n m
        (sys\<lparr>particles := take i (particles sys) @ drop (Suc i) (particles sys)
           @ [fst (Particle (fst (sampleNoisy m r)) 0 (snd (sampleNoisy m r)))]\<rparr>)
        (snd (Particle (fst (sampleNoisy m r)) 0 (snd (sampleNoisy m r))))"
    using assms(1) by (simp add: i push)
  moreover have "i < length (particles sys)"
    using i by (rule findIndex_Some_less)
  moreover have "isComplete (particles sys ! i) \<and> (\<forall>j<i. \<not> isComplete (particles sys ! j))"
    using i by (rule findIndex_Some_first)
  ultimately show ?thesis by (intro exI [of _ i] conjI) simp_all
qed

lemma spawnedSystem_particles:
  "particles spawnedSystem =
     [fst (Particle (fst (sampleNoisy DiffusionModel (sconst (1 / 2)))) 0
        (snd (sampleNoisy DiffusionModel (sconst (1 / 2)))))]"
  by (simp add: spawnedSystem_def ParticleSystem_def pushParticle_eq split_def Let_def)

lemma reachable_spawnedSystem: "reachable spawnedSystem"
  unfolding spawnedSystem_def by (intro reachable.intros)

lemma reachable_finishedSystem: "reachable finishedSystem"
  unfolding finishedSystem_def by (intro reachable.intros reachable_spawnedSystem)


text \<open>
  C6. In every reachable state the population holds at most \<open>maxParticles = 1000\<close>
  particles. When \<open>spawnParticles\<close> is called at capacity and no particle is complete, it
  returns the system and the random source as they are, whatever the count. When it is
  called at capacity and some particle is complete, a round of the loop removes the first
  complete particle, pushes the new particle, and goes on with the rounds that are left.
\<close>

theorem population_capacity:
  "(reachable sys \<longrightarrow> length (particles sys) \<le> maxParticles sys \<and> maxParticles sys = 1000) \<and>
   (maxParticles sys \<le> length (particles sys) \<and> (\<forall>p\<in>set (particles sys). \<not> isComplete p) \<longrightarrow>
      spawnParticles count m sys r = (sys, r)) \<and>
   (maxParticles sys \<le> length (particles sys) \<and> (\<exists>p\<in>set (particles sys). isComplete p) \<longrightarrow>
      (\<exists>i<length (particles sys).
         isComplete (particles sys ! i) \<and> (\<forall>j<i. \<not> isComplete (particles sys ! j)) \<and>
         spawnParticles (Suc n) m sys r =
           spawnParticles n m
             (sys\<lparr>particles := take i (particles sys) @ drop (Suc i) (particles sys)
                @ [fst (Particle (fst (sampleNoisy m r)) 0 (snd (sampleNoisy m r)))]\<rparr>)
             (snd (Particle (fst (sampleNoisy m r)) 0 (snd (sampleNoisy m r))))))"
  using reachable_capacity [of sys] spawnParticles_full_none [of sys count m r]
    spawnParticles_full_evict [of sys n m r]
  by blast

theorem population_capacity_witness:
  "reachable spawnedSystem \<and> length (particles spawnedSystem) = 1 \<and>
   length (particles spawnedSystem) \<le> maxParticles spawnedSystem \<and>
   maxParticles spawnedSystem = 1000 \<and>
   length (particles fullSystem) = 1000 \<and> maxParticles fullSystem = 1000 \<and>
   \<not> isComplete lastStepParticle \<and>
   spawnParticles 5 DiffusionModel fullSystem (sconst (1 / 2)) = (fullSystem, sconst (1 / 2)) \<and>
   length (particles fullArrivedSystem) = 1000 \<and> maxParticles fullArrivedSystem = 1000 \<and>
   isComplete arrivedParticle \<and>
   length (particles (fst (spawnParticles (Suc 0) DiffusionModel fullArrivedSystem (sconst (1 / 2)))))
     = 1000"
proof -
  have a: "\<not> isComplete lastStepParticle"
    by (simp add: isComplete_def lastStepParticle_def)
  have b: "isComplete arrivedParticle"
    by (simp add: isComplete_def arrivedParticle_def lastStepParticle_def Particle_update_def
        split_def Let_def)
  have full: "length (particles fullSystem) = 1000" "maxParticles fullSystem = 1000"
    "set (particles fullSystem) = {lastStepParticle}"
    by (simp_all add: fullSystem_def)
  have arrived: "length (particles fullArrivedSystem) = 1000"
    "maxParticles fullArrivedSystem = 1000"
    "set (particles fullArrivedSystem) = {arrivedParticle}"
    by (simp_all add: fullArrivedSystem_def)
  have one: "length (particles spawnedSystem) = 1"
    by (simp add: spawnedSystem_particles)
  have hc: "maxParticles fullSystem \<le> length (particles fullSystem) \<and>
      (\<forall>p\<in>set (particles fullSystem). \<not> isComplete p)"
    using a full by simp
  have c: "spawnParticles 5 DiffusionModel fullSystem (sconst (1 / 2)) = (fullSystem, sconst (1 / 2))"
    using population_capacity [of fullSystem 5 DiffusionModel "sconst (1 / 2)"] hc by blast
  have hd: "maxParticles fullArrivedSystem \<le> length (particles fullArrivedSystem) \<and>
      (\<exists>p\<in>set (particles fullArrivedSystem). isComplete p)"
    using b arrived by simp
  obtain i q r' where i: "i < length (particles fullArrivedSystem)"
    and "spawnParticles (Suc 0) DiffusionModel fullArrivedSystem (sconst (1 / 2)) =
      spawnParticles 0 DiffusionModel
        (fullArrivedSystem\<lparr>particles := take i (particles fullArrivedSystem)
           @ drop (Suc i) (particles fullArrivedSystem) @ [q]\<rparr>) r'"
    using population_capacity [of fullArrivedSystem _ DiffusionModel "sconst (1 / 2)" 0] hd
    by blast
  then have d: "length (particles (fst (spawnParticles (Suc 0) DiffusionModel fullArrivedSystem
      (sconst (1 / 2))))) = 1000"
    using arrived(1) by simp
  have e: "length (particles spawnedSystem) \<le> maxParticles spawnedSystem \<and>
      maxParticles spawnedSystem = 1000"
    using population_capacity [of spawnedSystem] reachable_spawnedSystem by blast
  show ?thesis
    using reachable_spawnedSystem a b c d e full(1,2) arrived(1,2) one by simp
qed


lemma Particle_update_trajectory_length:
  assumes "length (trajectory p) \<le> 100"
  shows "length (trajectory (fst (Particle_update m dt s p r))) \<le> 100"
proof (cases "\<not> active p \<or> 1 \<le> p_t p")
  case True
  then show ?thesis using assms by (simp add: Particle_update_idle)
next
  case False
  then show ?thesis using assms by (simp add: Particle_update_move)
qed

lemma reachable_trajectory:
  "reachable sys \<Longrightarrow> \<forall>p\<in>set (particles sys). length (trajectory p) \<le> 100"
  by (rule reachable_all) (simp_all add: Particle_fields Particle_update_trajectory_length)

lemma Particle_update_inactive_complete:
  assumes "\<not> active p \<longrightarrow> 1 \<le> p_t p"
  shows "\<not> active (fst (Particle_update m dt s p r)) \<longrightarrow> 1 \<le> p_t (fst (Particle_update m dt s p r))"
proof (cases "\<not> active p \<or> 1 \<le> p_t p")
  case True
  then show ?thesis using assms by (auto simp add: Particle_update_idle)
next
  case False
  then show ?thesis by (simp add: Particle_update_move)
qed

lemma reachable_inactive_complete:
  "reachable sys \<Longrightarrow> \<forall>p\<in>set (particles sys). \<not> active p \<longrightarrow> 1 \<le> p_t p"
  by (rule reachable_all) (simp_all add: Particle_fields Particle_update_inactive_complete)

lemma findIndex_cong:
  "\<forall>a\<in>set as. P a = Q a \<Longrightarrow> findIndex P as = findIndex Q as"
  by (induction as) simp_all


text \<open>
  C7. In every reachable state no trajectory is longer than 100 points. When an active
  particle with \<open>t < 1\<close> holds 100 points, \<open>update\<close> drops the first point and appends the
  new one, so the trajectory still holds 100 points.
\<close>

theorem trajectory_bounded:
  "(reachable sys \<longrightarrow> (\<forall>p\<in>set (particles sys). length (trajectory p) \<le> 100)) \<and>
   (active p \<and> p_t p < 1 \<and> length (trajectory p) = 100 \<longrightarrow>
      trajectory (fst (Particle_update m dt s p r)) =
        tl (trajectory p) @ [(fst (evolveParticle m (p_x p) (p_t p) dt s r), min (p_t p + dt) 1)] \<and>
      length (trajectory (fst (Particle_update m dt s p r))) = 100)"
  using reachable_trajectory [of sys] by (simp add: Particle_update_move)

theorem trajectory_bounded_witness:
  "reachable spawnedSystem \<and>
   length (trajectory (hd (particles spawnedSystem))) = 1 \<and>
   length (trajectory (hd (particles spawnedSystem))) \<le> 100 \<and>
   active longParticle \<and> p_t longParticle < 1 \<and> length (trajectory longParticle) = 100 \<and>
   trajectory (fst (Particle_update DiffusionModel 0.02 0 longParticle (sconst (1 / 2)))) =
     replicate 99 (0, 0) @ [(flowMatchingStep DiffusionModel 0 0 0.02, 0.02)] \<and>
   length (trajectory (fst (Particle_update DiffusionModel 0.02 0 longParticle (sconst (1 / 2)))))
     = 100"
proof -
  have mem: "hd (particles spawnedSystem) \<in> set (particles spawnedSystem)"
    by (simp add: spawnedSystem_particles)
  have a: "length (trajectory (hd (particles spawnedSystem))) \<le> 100"
    using trajectory_bounded [of spawnedSystem] reachable_spawnedSystem mem by blast
  have b: "length (trajectory (hd (particles spawnedSystem))) = 1"
    by (simp add: spawnedSystem_particles Particle_fields)
  have c: "active longParticle \<and> p_t longParticle < 1 \<and> length (trajectory longParticle) = 100"
    by (simp add: longParticle_def)
  have tl: "tl (trajectory longParticle) = replicate 99 (0, 0)"
    by (simp add: longParticle_def tl_replicate)
  have d: "trajectory (fst (Particle_update DiffusionModel 0.02 0 longParticle (sconst (1 / 2)))) =
        tl (trajectory longParticle)
          @ [(fst (evolveParticle DiffusionModel (p_x longParticle) (p_t longParticle) 0.02 0
                (sconst (1 / 2))), min (p_t longParticle + 0.02) 1)] \<and>
      length (trajectory (fst (Particle_update DiffusionModel 0.02 0 longParticle (sconst (1 / 2)))))
        = 100"
    using trajectory_bounded [of _ longParticle DiffusionModel "0.02" 0 "sconst (1 / 2)"] c
    by blast
  have e: "fst (evolveParticle DiffusionModel (p_x longParticle) (p_t longParticle) 0.02 0
        (sconst (1 / 2))) = flowMatchingStep DiffusionModel 0 0 0.02"
    "min (p_t longParticle + 0.02) 1 = 0.02"
    by (simp_all add: evolveParticle_def longParticle_def)
  show ?thesis
    using reachable_spawnedSystem a b c d unfolding tl e by simp
qed


text \<open>
  C10. In every reachable state an inactive particle has \<open>t \<ge> 1\<close>. So \<open>isComplete\<close>, the
  test \<open>t \<ge> 1\<close> that \<open>spawnParticles\<close> evicts by, agrees on every particle with
  "inactive or \<open>t \<ge> 1\<close>", and \<open>findIndex\<close> finds the same particle with either test.
\<close>

theorem inactive_only_when_complete:
  "reachable sys \<Longrightarrow>
   (\<forall>p\<in>set (particles sys).
      (\<not> active p \<longrightarrow> 1 \<le> p_t p) \<and> (isComplete p \<longleftrightarrow> \<not> active p \<or> 1 \<le> p_t p)) \<and>
   findIndex isComplete (particles sys) = findIndex (\<lambda>p. \<not> active p \<or> 1 \<le> p_t p) (particles sys)"
proof -
  assume "reachable sys"
  then have inv: "\<forall>p\<in>set (particles sys). \<not> active p \<longrightarrow> 1 \<le> p_t p"
    by (rule reachable_inactive_complete)
  then have same: "\<forall>p\<in>set (particles sys). isComplete p = (\<not> active p \<or> 1 \<le> p_t p)"
    by (auto simp add: isComplete_def)
  then have "findIndex isComplete (particles sys)
      = findIndex (\<lambda>p. \<not> active p \<or> 1 \<le> p_t p) (particles sys)"
    by (rule findIndex_cong)
  with inv same show ?thesis by simp
qed

lemma finishedSystem_particle:
  "\<not> active (hd (particles finishedSystem))" "p_t (hd (particles finishedSystem)) = 1"
  by (simp_all add: finishedSystem_def ParticleSystem_update_fields spawnedSystem_particles
      split_def Let_def Particle_update_def Particle_fields)

theorem inactive_only_when_complete_witness:
  "reachable finishedSystem \<and>
   \<not> active (hd (particles finishedSystem)) \<and>
   1 \<le> p_t (hd (particles finishedSystem)) \<and>
   isComplete (hd (particles finishedSystem))"
proof -
  have mem: "hd (particles finishedSystem) \<in> set (particles finishedSystem)"
    by (simp add: finishedSystem_def ParticleSystem_update_fields spawnedSystem_particles
      split_def Let_def)
  show ?thesis
    using inactive_only_when_complete [OF reachable_finishedSystem] mem
      reachable_finishedSystem finishedSystem_particle(1)
    by blast
qed


end
